theory Spec2Isabelle
  imports Main "HOL-Library.Sublist"
begin

section \<open>Python strings and containers used by app.py\<close>

text \<open>
  Python \<open>str\<close> values are modelled as \<open>string\<close> (a list of characters), the text being
  taken as ASCII. \<open>sublist\<close>, \<open>prefix\<close> and \<open>suffix\<close> of the library are Python's
  \<open>x in s\<close>, \<open>s.startswith(x)\<close> and \<open>s.endswith(x)\<close>.
\<close>

text \<open>\<open>s.lower()\<close> and \<open>s.upper()\<close>, on ASCII letters.\<close>

definition ascii_uppercase :: string where
  "ascii_uppercase = ''ABCDEFGHIJKLMNOPQRSTUVWXYZ''"

definition ascii_lowercase :: string where
  "ascii_lowercase = ''abcdefghijklmnopqrstuvwxyz''"

definition lower_char :: "char \<Rightarrow> char" where
  "lower_char c = (case map_of (zip ascii_uppercase ascii_lowercase) c of None \<Rightarrow> c | Some l \<Rightarrow> l)"

definition upper_char :: "char \<Rightarrow> char" where
  "upper_char c = (case map_of (zip ascii_lowercase ascii_uppercase) c of None \<Rightarrow> c | Some u \<Rightarrow> u)"

definition lower :: "string \<Rightarrow> string" where
  "lower s = map lower_char s"

definition upper :: "string \<Rightarrow> string" where
  "upper s = map upper_char s"

text \<open>
  \<open>s.strip()\<close>: the characters that \<open>str.isspace\<close> accepts in ASCII are tab, line feed,
  vertical tab, form feed, carriage return, the four separators 28 to 31, and the space.
\<close>

definition whitespace :: string where
  "whitespace =
     [CHR 0x09, CHR 0x0A, CHR 0x0B, CHR 0x0C, CHR 0x0D, CHR 0x1C, CHR 0x1D, CHR 0x1E, CHR 0x1F,
      CHR 0x20]"

definition isspace :: "char \<Rightarrow> bool" where
  "isspace c = (c \<in> set whitespace)"

definition strip :: "string \<Rightarrow> string" where
  "strip s = rev (dropWhile isspace (rev (dropWhile isspace s)))"

text \<open>
  \<open>s.split(sep)\<close> for a one-character separator: one more piece than there are
  separators, empty pieces included.
\<close>

fun split :: "char \<Rightarrow> string \<Rightarrow> string list" where
  "split sep [] = [[]]"
| "split sep (c # cs) =
     (if c = sep then [] # split sep cs
      else (case split sep cs of w # ws \<Rightarrow> (c # w) # ws | [] \<Rightarrow> [[c]]))"

text \<open>\<open>sep.join(parts)\<close>.\<close>

fun join :: "string \<Rightarrow> string list \<Rightarrow> string" where
  "join sep [] = []"
| "join sep [p] = p"
| "join sep (p # q # ps) = p @ sep @ join sep (q # ps)"

text \<open>
  A Python \<open>dict\<close> is a list of key/value pairs with distinct keys, in insertion order.
  \<open>d.get(key, default)\<close>:
\<close>

definition dict_get :: "('k \<times> 'v) list \<Rightarrow> 'k \<Rightarrow> 'v \<Rightarrow> 'v" where
  "dict_get d k dflt = (case map_of d k of None \<Rightarrow> dflt | Some v \<Rightarrow> v)"

section \<open>PubMed search functions\<close>

subsection \<open>construct_query\<close>

definition article_types :: "(string \<times> string) list" where
  "article_types =
     [(''Clinical Trials'', ''Clinical Trial[pt]''),
      (''Meta-Analysis'', ''Meta-Analysis[pt]''),
      (''Randomized Controlled Trials'', ''Randomized Controlled Trial[pt]''),
      (''Reviews'', ''Review[pt]'')]"

definition construct_query :: "string \<Rightarrow> string \<Rightarrow> string \<Rightarrow> string" where
  "construct_query search_term mesh_term choice =
     (let chosen_article_type = dict_get article_types choice '''';
          query = ''('' @ search_term @ '') AND '' @ chosen_article_type
      in if mesh_term \<noteq> [] then query @ '' AND '' @ mesh_term @ ''[MeSH Terms]''
         else query)"

subsection \<open>fetch_abstracts\<close>

text \<open>
  A Medline record as \<open>Medline.parse\<close> yields it: a dictionary in which \<open>AU\<close> holds a
  list of names and the other keys hold text; any key may be absent.
\<close>

record article =
  TI :: "string option"
  AU :: "string list option"
  AB :: "string option"
  DP :: "string option"
  TA :: "string option"

text \<open>
  The calls into Biopython are parameters of the model. Each either raises an exception,
  \<open>Inl\<close> of its message \<open>str(e)\<close>, or returns, \<open>Inr\<close>. The exceptions are those of
  class \<open>Exception\<close>, which is what the calls raise and what the handler catches.
  \<open>read\<close> returns the result dictionary, \<open>parse\<close> stands for
  \<open>list(Medline.parse(handle))\<close>.
\<close>

record 'h entrez =
  esearch :: "string \<Rightarrow> int \<Rightarrow> string + 'h"
  read :: "'h \<Rightarrow> string + (string \<rightharpoonup> string list)"
  efetch :: "string list \<Rightarrow> string + 'h"
  parse :: "'h \<Rightarrow> string + article list"
  close :: "'h \<Rightarrow> string + unit"

text \<open>The body of the \<open>try\<close> block; \<open>result['IdList']\<close> raises KeyError on a missing key.\<close>

definition fetch_try :: "'h entrez \<Rightarrow> string \<Rightarrow> int \<Rightarrow> string + article list" where
  "fetch_try api query num_articles =
     (case esearch api query num_articles of Inl e \<Rightarrow> Inl e | Inr handle \<Rightarrow>
      case read api handle of Inl e \<Rightarrow> Inl e | Inr result \<Rightarrow>
      case close api handle of Inl e \<Rightarrow> Inl e | Inr _ \<Rightarrow>
      case result ''IdList'' of None \<Rightarrow> Inl (CHR 0x27 # ''IdList'' @ [CHR 0x27]) | Some ids \<Rightarrow>
      if ids = [] then Inr []
      else
        case efetch api ids of Inl e \<Rightarrow> Inl e | Inr handle2 \<Rightarrow>
        case parse api handle2 of Inl e \<Rightarrow> Inl e | Inr articles \<Rightarrow>
        case close api handle2 of Inl e \<Rightarrow> Inl e | Inr _ \<Rightarrow> Inr articles)"

text \<open>
  What a call of \<open>fetch_abstracts\<close> leaves behind: the value returned, the lines written
  to the page by \<open>st.write\<close>, and the address stored in \<open>Entrez.email\<close>.
\<close>

record fetched =
  returned :: "article list"
  written :: "string list"
  entrez_email :: string

definition fetch_abstracts :: "'h entrez \<Rightarrow> string \<Rightarrow> int \<Rightarrow> string \<Rightarrow> fetched" where
  "fetch_abstracts api query num_articles email =
     (case fetch_try api query num_articles of
        Inr articles \<Rightarrow> \<lparr>returned = articles, written = [], entrez_email = email\<rparr>
      | Inl e \<Rightarrow>
          \<lparr>returned = [], written = [''Error fetching articles: '' @ e], entrez_email = email\<rparr>)"

subsection \<open>save_to_excel\<close>

text \<open>
  The argument of \<open>', '.join\<close> is what \<open>article.get('AU', 'No authors')\<close> returns: the
  list of names, or the default, which is a \<open>str\<close>. Iterating a \<open>str\<close> yields its
  characters, each a \<open>str\<close> of length one.
\<close>

datatype pyval = Str string | StrList "string list"

fun iter :: "pyval \<Rightarrow> string list" where
  "iter (Str s) = map (\<lambda>c. [c]) s"
| "iter (StrList xs) = xs"

definition get_str :: "string option \<Rightarrow> string \<Rightarrow> string" where
  "get_str field dflt = (case field of None \<Rightarrow> dflt | Some v \<Rightarrow> v)"

definition get_AU :: "article \<Rightarrow> string \<Rightarrow> pyval" where
  "get_AU a dflt = (case AU a of None \<Rightarrow> Str dflt | Some names \<Rightarrow> StrList names)"

record table_row =
  Title :: string
  Authors :: string
  Abstract :: string
  Publication_Date :: string
  Journal :: string

definition to_row :: "article \<Rightarrow> table_row" where
  "to_row a =
     \<lparr>Title = get_str (TI a) ''No title'',
      Authors = join '', '' (iter (get_AU a ''No authors'')),
      Abstract = get_str (AB a) ''No abstract'',
      Publication_Date = get_str (DP a) ''No date'',
      Journal = get_str (TA a) ''No journal''\<rparr>"

text \<open>The table \<open>df\<close> that is returned; the spreadsheet buffer is pandas' serialisation of it.\<close>

definition save_to_excel :: "article list \<Rightarrow> table_row list" where
  "save_to_excel articles = map to_row articles"

section \<open>Entity extraction\<close>

subsection \<open>get_bc5cdr_entities\<close>

text \<open>
  The spaCy pipeline \<open>nlp\<close> is a parameter: \<open>nlp sent\<close> is the list \<open>doc.ents\<close> of the
  tagged document, each span given by its \<open>text\<close> and its \<open>label_\<close>. \<open>entity_types\<close>
  is a list, as the caller builds it.
\<close>

type_synonym tagger = "string \<Rightarrow> (string \<times> string) list"

definition get_bc5cdr_entities :: "tagger \<Rightarrow> string \<Rightarrow> string list \<Rightarrow> (string \<times> string) list" where
  "get_bc5cdr_entities nlp sent entity_types =
     [(lower text, label). (text, label) \<leftarrow> nlp sent, label \<in> set entity_types]"

subsection \<open>process_abstracts_from_excel\<close>

record entity_record =
  titles :: "string set"
  type :: string

type_synonym entity_dict = "(string \<times> entity_record) list"

record edge_row =
  source :: string
  target :: string
  edge :: string

text \<open>\<open>itertools.combinations(xs, 2)\<close>, in the order in which it yields the pairs.\<close>

fun combinations2 :: "'a list \<Rightarrow> ('a \<times> 'a) list" where
  "combinations2 [] = []"
| "combinations2 (x # xs) = map (Pair x) xs @ combinations2 xs"

text \<open>
  Lines 104 and 105: a text that is not yet a key gets a record with no title and the
  type of this mention, appended as the newest key.
\<close>

definition ensure_entity :: "string \<Rightarrow> string \<Rightarrow> entity_dict \<Rightarrow> entity_dict" where
  "ensure_entity entity_text entity_type d =
     (if entity_text \<notin> fst ` set d
      then d @ [(entity_text, \<lparr>titles = {}, type = entity_type\<rparr>)]
      else d)"

text \<open>
  Line 106: the title set stored under the key is extended in place. The key is present
  whenever this line runs, line 105 having just ensured it.
\<close>

definition add_title :: "string \<Rightarrow> string \<Rightarrow> entity_dict \<Rightarrow> entity_dict" where
  "add_title entity_text title d =
     map (\<lambda>(k, r). if k = entity_text then (k, r\<lparr>titles := insert title (titles r)\<rparr>) else (k, r)) d"

text \<open>The first inner loop, over the mentions of one abstract.\<close>

definition record_entities :: "string \<Rightarrow> entity_dict \<Rightarrow> (string \<times> string) list \<Rightarrow> entity_dict" where
  "record_entities title d entities =
     foldl (\<lambda>d (entity_text, entity_type).
              add_title entity_text title (ensure_entity entity_text entity_type d))
       d entities"

text \<open>
  An allowed relationship is the tuple \<open>tuple(rel.strip().split("-"))\<close>, of any length,
  written as a list; the pair \<open>(a, b)\<close> is \<open>in\<close> the allow-list when the tuple of exactly
  these two components is.
\<close>

definition allowed_pair :: "string list list \<Rightarrow> (string \<times> string) \<Rightarrow> (string \<times> string) \<Rightarrow> bool" where
  "allowed_pair allowed_relationships entity1 entity2 =
     ([snd entity1, snd entity2] \<in> set allowed_relationships
      \<or> [snd entity2, snd entity1] \<in> set allowed_relationships)"

definition make_edge :: "(string \<times> string) \<Rightarrow> (string \<times> string) \<Rightarrow> edge_row" where
  "make_edge entity1 entity2 =
     \<lparr>source = fst entity1, target = fst entity2,
      edge = snd entity1 @ ''_to_'' @ snd entity2\<rparr>"

text \<open>The second inner loop, over the pairs of mentions of one abstract.\<close>

definition append_edges ::
  "string list list \<Rightarrow> edge_row list \<Rightarrow> (string \<times> string) list \<Rightarrow> edge_row list" where
  "append_edges allowed_relationships rows entities =
     foldl (\<lambda>rows (entity1, entity2).
              if allowed_pair allowed_relationships entity1 entity2
              then rows @ [make_edge entity1 entity2] else rows)
       rows (combinations2 entities)"

text \<open>
  The table read by the function is given by its two columns \<open>Abstract\<close> and \<open>Title\<close>,
  one pair of cells per row; a missing cell is \<open>None\<close>. \<open>dropna\<close> keeps the rows with
  both cells present.
\<close>

type_synonym abstract_title_table = "(string option \<times> string option) list"

fun dropna :: "abstract_title_table \<Rightarrow> (string \<times> string) list" where
  "dropna [] = []"
| "dropna ((Some abstract, Some title) # rest) = (abstract, title) # dropna rest"
| "dropna (_ # rest) = dropna rest"

text \<open>The body of the outer loop, on the state \<open>(rows, entity_to_titles)\<close>.\<close>

definition process_row ::
  "tagger \<Rightarrow> string list \<Rightarrow> string list list \<Rightarrow> edge_row list \<times> entity_dict
     \<Rightarrow> string \<times> string \<Rightarrow> edge_row list \<times> entity_dict" where
  "process_row nlp entity_types allowed_relationships state row =
     (let entities = get_bc5cdr_entities nlp (fst row) entity_types
      in (append_edges allowed_relationships (fst state) entities,
          record_entities (snd row) (snd state) entities))"

definition process_abstracts_from_excel ::
  "tagger \<Rightarrow> abstract_title_table \<Rightarrow> string list \<Rightarrow> string list list
     \<Rightarrow> edge_row list \<times> entity_dict" where
  "process_abstracts_from_excel nlp df entity_types allowed_relationships =
     foldl (process_row nlp entity_types allowed_relationships) ([], []) (dropna df)"

section \<open>Graph assembly\<close>

text \<open>
  Modelled from the spec: the pyvis \<open>Network\<close> is the external rendering collaborator,
  consumed through "add node(id, tooltip, color)" and "add edge(source, target, label)".
  The model keeps the nodes and edges handed to it, in order: its edges are the calls of
  "add edge" that were made, whatever the library does with a repeated edge. The tooltip of a node is the
  \<open><br>\<close>-join of the title set in the iteration order of a Python \<open>set\<close>, which the
  source does not fix; the model keeps the set.
\<close>

record node =
  n_id :: string
  n_titles :: "string set"
  color :: string

record net_edge =
  e_source :: string
  e_to :: string
  e_title :: string

record network =
  nodes :: "node list"
  edges :: "net_edge list"

definition add_node :: "string \<Rightarrow> string set \<Rightarrow> string \<Rightarrow> network \<Rightarrow> network" where
  "add_node entity ts c net = net\<lparr>nodes := nodes net @ [\<lparr>n_id = entity, n_titles = ts, color = c\<rparr>]\<rparr>"

definition get_nodes :: "network \<Rightarrow> string list" where
  "get_nodes net = map n_id (nodes net)"

definition add_edge :: "string \<Rightarrow> string \<Rightarrow> string \<Rightarrow> network \<Rightarrow> network" where
  "add_edge src dst label net =
     net\<lparr>edges := edges net @ [\<lparr>e_source = src, e_to = dst, e_title = label\<rparr>]\<rparr>"

subsection \<open>visualize_graph_interactive\<close>

definition entity_colors :: "(string \<times> string) list" where
  "entity_colors = [(''CHEMICAL'', ''green''), (''DISEASE'', ''red'')]"

definition add_entity_nodes :: "entity_dict \<Rightarrow> network \<Rightarrow> network" where
  "add_entity_nodes entity_to_titles net =
     foldl (\<lambda>net (entity, details).
              add_node entity (titles details)
                (dict_get entity_colors (upper (type details)) ''#999999'') net)
       net entity_to_titles"

definition add_edge_rows :: "edge_row list \<Rightarrow> network \<Rightarrow> network" where
  "add_edge_rows kg_df net =
     foldl (\<lambda>net row.
              if source row \<in> set (get_nodes net) \<and> target row \<in> set (get_nodes net)
              then add_edge (source row) (target row) (edge row) net else net)
       net kg_df"

text \<open>
  The network that is laid out and saved to \<open>graph_download.html\<close>; layout, rendering and
  the styling of the saved page are the collaborator's.
\<close>

definition visualize_graph_interactive :: "edge_row list \<Rightarrow> entity_dict \<Rightarrow> network" where
  "visualize_graph_interactive kg_df entity_to_titles =
     add_edge_rows kg_df (add_entity_nodes entity_to_titles \<lparr>nodes = [], edges = []\<rparr>)"

section \<open>The allow-lists typed into the page\<close>

text \<open>Line 191.\<close>

definition entity_types_of_input :: "string \<Rightarrow> string list" where
  "entity_types_of_input entity_types_input =
     [strip et. et \<leftarrow> split CHR '','' entity_types_input]"

text \<open>Line 192.\<close>

definition allowed_relationships_of_input :: "string \<Rightarrow> string list list" where
  "allowed_relationships_of_input allowed_rel_input =
     [split CHR ''-'' (strip rel). rel \<leftarrow> split CHR '','' allowed_rel_input, CHR ''-'' \<in> set rel]"

section \<open>An example run\<close>

text \<open>
  A tagger and a table for the examples: three abstracts and a row without abstract. The
  tagger gives the text "aspirin" one type in the first abstract and another in the second;
  the third abstract has no span of the types asked for.
\<close>

definition example_tagger :: tagger where
  "example_tagger sent =
     (if sent = ''first abstract''
      then [(''Aspirin'', ''CHEMICAL''), (''headache'', ''DISEASE''), (''Ibuprofen'', ''CHEMICAL''),
            (''COX-2'', ''GENE'')]
      else if sent = ''second abstract'' then [(''aspirin'', ''DISEASE'')]
      else if sent = ''third abstract'' then [(''BRCA1'', ''GENE'')]
      else [])"

definition example_table :: abstract_title_table where
  "example_table =
     [(Some ''first abstract'', Some ''Title 1''), (None, Some ''Title 0''),
      (Some ''second abstract'', Some ''Title 2''), (Some ''third abstract'', Some ''Title 3'')]"

section \<open>The query builder\<close>

text \<open>
  C4 (as amended). For every search term \<open>S\<close>, every controlled term \<open>M\<close> (possibly
  empty) and every article type \<open>A\<close> among the four fixed categories, with filter string
  \<open>F\<close>: the query is \<open>(S) AND F\<close>, followed by \<open> AND M[MeSH Terms]\<close> exactly when \<open>M\<close>
  is not empty. So it contains \<open>(S) AND F\<close>, it contains the MeSH clause when \<open>M\<close> is not
  empty, and it ends with the MeSH clause if and only if \<open>M\<close> is not empty. The search term
  "aspirin" with "Clinical Trials" and no controlled term gives exactly
  \<open>(aspirin) AND Clinical Trial[pt]\<close>.
\<close>

theorem construct_query_shape:
  assumes "map_of article_types A = Some F"
  shows "construct_query S M A
           = ''('' @ S @ '') AND '' @ F @ (if M = [] then [] else '' AND '' @ M @ ''[MeSH Terms]'')
         \<and> sublist (''('' @ S @ '') AND '' @ F) (construct_query S M A)
         \<and> (M \<noteq> [] \<longrightarrow> sublist ('' AND '' @ M @ ''[MeSH Terms]'') (construct_query S M A))
         \<and> (suffix ('' AND '' @ M @ ''[MeSH Terms]'') (construct_query S M A) \<longleftrightarrow> M \<noteq> [])
         \<and> construct_query ''aspirin'' [] ''Clinical Trials'' = ''(aspirin) AND Clinical Trial[pt]''"
proof -
  let ?q = "construct_query S M A"
  have eq: "?q = ''('' @ S @ '') AND '' @ F @ (if M = [] then [] else '' AND '' @ M @ ''[MeSH Terms]'')"
    using assms by (simp add: construct_query_def dict_get_def)
  have pre: "sublist (''('' @ S @ '') AND '' @ F) ?q"
    unfolding eq by (rule prefix_imp_sublist) simp
  have inn: "M \<noteq> [] \<longrightarrow> sublist ('' AND '' @ M @ ''[MeSH Terms]'') ?q"
  proof
    assume "M \<noteq> []"
    then have "suffix ('' AND '' @ M @ ''[MeSH Terms]'') ?q"
      unfolding eq by (simp add: suffix_def)
    then show "sublist ('' AND '' @ M @ ''[MeSH Terms]'') ?q"
      by (rule suffix_imp_sublist)
  qed
  have F: "F \<in> {''Clinical Trial[pt]'', ''Meta-Analysis[pt]'', ''Randomized Controlled Trial[pt]'', ''Review[pt]''}"
    using assms by (auto simp: article_types_def split: if_splits)
  have suf: "suffix ('' AND '' @ M @ ''[MeSH Terms]'') ?q \<longleftrightarrow> M \<noteq> []"
  proof (cases "M = []")
    case True
    with F show ?thesis unfolding eq by (auto simp: suffix_to_prefix)
  next
    case False
    then show ?thesis unfolding eq by (simp add: suffix_def)
  qed
  have ex: "construct_query ''aspirin'' [] ''Clinical Trials'' = ''(aspirin) AND Clinical Trial[pt]''"
    by (simp add: construct_query_def dict_get_def article_types_def)
  from eq pre inn suf ex show ?thesis by blast
qed

theorem construct_query_shape_witness:
  "map_of article_types ''Reviews'' = Some ''Review[pt]''
   \<and> construct_query ''aspirin'' ''Pain'' ''Reviews'' = ''(aspirin) AND Review[pt] AND Pain[MeSH Terms]''
   \<and> suffix '' AND Pain[MeSH Terms]'' (construct_query ''aspirin'' ''Pain'' ''Reviews'')"
proof -
  have h: "map_of article_types ''Reviews'' = Some ''Review[pt]''"
    by (simp add: article_types_def)
  show ?thesis
    using h construct_query_shape [OF h, of "''aspirin''" "''Pain''", simplified] by blast
qed

text \<open>
  C4 as stated fails where the search term itself holds the text of an empty MeSH clause:
  the query then contains \<open> AND [MeSH Terms]\<close> although the controlled term is empty.
\<close>

theorem construct_query_contains_counterexample:
  "\<not> (sublist ('' AND '' @ [] @ ''[MeSH Terms]'')
         (construct_query ''a AND [MeSH Terms]'' [] ''Clinical Trials'')
       \<longleftrightarrow> ([] :: string) \<noteq> [])"
  by (simp add: construct_query_def dict_get_def article_types_def sublist_code)


section \<open>The abstract fetcher\<close>

text \<open>
  C7. \<open>fetch_abstracts\<close> returns the empty list, and writes nothing, when the search
  and the reading of its result succeed with an empty \<open>IdList\<close>. When any call of the
  \<open>try\<close> block raises an exception with message \<open>e\<close> (the search, the reading of its
  result, the closing of a handle, the lookup of \<open>IdList\<close>, the fetch, the parsing of the
  records), the exception does not leave the function: the line
  \<open>Error fetching articles: e\<close> is written to the page and the empty list is returned.
\<close>

theorem fetch_abstracts_recovers:
  "(\<forall>h result. esearch api query n = Inr h \<and> read api h = Inr result \<and> close api h = Inr ()
        \<and> result ''IdList'' = Some []
      \<longrightarrow> fetch_abstracts api query n email = \<lparr>returned = [], written = [], entrez_email = email\<rparr>)
   \<and> (\<forall>e. esearch api query n = Inl e \<longrightarrow> fetch_abstracts api query n email = \<lparr>returned = [], written = [''Error fetching articles: '' @ e], entrez_email = email\<rparr>)
   \<and> (\<forall>h e. esearch api query n = Inr h \<and> read api h = Inl e \<longrightarrow> fetch_abstracts api query n email = \<lparr>returned = [], written = [''Error fetching articles: '' @ e], entrez_email = email\<rparr>)
   \<and> (\<forall>h result e. esearch api query n = Inr h \<and> read api h = Inr result \<and> close api h = Inl e
        \<longrightarrow> fetch_abstracts api query n email = \<lparr>returned = [], written = [''Error fetching articles: '' @ e], entrez_email = email\<rparr>)
   \<and> (\<forall>h result. esearch api query n = Inr h \<and> read api h = Inr result \<and> close api h = Inr ()
        \<and> result ''IdList'' = None
      \<longrightarrow> fetch_abstracts api query n email
            = \<lparr>returned = [], written = [''Error fetching articles: '' @ CHR 0x27 # ''IdList'' @ [CHR 0x27]],
               entrez_email = email\<rparr>)
   \<and> (\<forall>h result ids e. esearch api query n = Inr h \<and> read api h = Inr result
        \<and> close api h = Inr () \<and> result ''IdList'' = Some ids \<and> ids \<noteq> []
        \<and> efetch api ids = Inl e
      \<longrightarrow> fetch_abstracts api query n email = \<lparr>returned = [], written = [''Error fetching articles: '' @ e], entrez_email = email\<rparr>)
   \<and> (\<forall>h result ids h2 e. esearch api query n = Inr h \<and> read api h = Inr result
        \<and> close api h = Inr () \<and> result ''IdList'' = Some ids \<and> ids \<noteq> []
        \<and> efetch api ids = Inr h2
        \<and> (parse api h2 = Inl e \<or> (\<exists>articles. parse api h2 = Inr articles) \<and> close api h2 = Inl e)
      \<longrightarrow> fetch_abstracts api query n email = \<lparr>returned = [], written = [''Error fetching articles: '' @ e], entrez_email = email\<rparr>)"
  by (auto simp: fetch_abstracts_def fetch_try_def split: sum.splits option.splits)

theorem fetch_abstracts_recovers_witness:
  "fetch_abstracts
     \<lparr>esearch = \<lambda>q k. Inr (0::nat), read = \<lambda>h. Inr [''IdList'' \<mapsto> []],
      efetch = \<lambda>ids. Inr 1, parse = \<lambda>h. Inr [], close = \<lambda>h. Inr ()\<rparr> ''(aspirin) AND Review[pt]'' 5 ''a@b.org''
     = \<lparr>returned = [], written = [], entrez_email = ''a@b.org''\<rparr>
   \<and> fetch_abstracts
     \<lparr>esearch = \<lambda>q k. Inl ''HTTP Error 400: Bad Request'', read = \<lambda>h::nat. Inr [''IdList'' \<mapsto> []],
      efetch = \<lambda>ids. Inr 1, parse = \<lambda>h. Inr [], close = \<lambda>h. Inr ()\<rparr> ''(aspirin) AND Review[pt]'' 5 ''a@b.org''
     = \<lparr>returned = [], written = [''Error fetching articles: HTTP Error 400: Bad Request''],
        entrez_email = ''a@b.org''\<rparr>
   \<and> fetch_abstracts
     \<lparr>esearch = \<lambda>q k. Inr (0::nat), read = \<lambda>h. Inr [''IdList'' \<mapsto> [''31''] ],
      efetch = \<lambda>ids. Inl ''timed out'', parse = \<lambda>h. Inr [], close = \<lambda>h. Inr ()\<rparr> ''(aspirin) AND Review[pt]'' 5 ''a@b.org''
     = \<lparr>returned = [], written = [''Error fetching articles: timed out''],
        entrez_email = ''a@b.org''\<rparr>"
  using
    fetch_abstracts_recovers [of "\<lparr>esearch = \<lambda>q k. Inr (0::nat), read = \<lambda>h. Inr [''IdList'' \<mapsto> []],
      efetch = \<lambda>ids. Inr 1, parse = \<lambda>h. Inr [], close = \<lambda>h. Inr ()\<rparr>" "''(aspirin) AND Review[pt]''" 5 "''a@b.org''"]
    fetch_abstracts_recovers [of "\<lparr>esearch = \<lambda>q k. Inl ''HTTP Error 400: Bad Request'', read = \<lambda>h::nat. Inr [''IdList'' \<mapsto> []],
      efetch = \<lambda>ids. Inr 1, parse = \<lambda>h. Inr [], close = \<lambda>h. Inr ()\<rparr>" "''(aspirin) AND Review[pt]''" 5 "''a@b.org''"]
    fetch_abstracts_recovers [of "\<lparr>esearch = \<lambda>q k. Inr (0::nat), read = \<lambda>h. Inr [''IdList'' \<mapsto> [''31''] ],
      efetch = \<lambda>ids. Inl ''timed out'', parse = \<lambda>h. Inr [], close = \<lambda>h. Inr ()\<rparr>" "''(aspirin) AND Review[pt]''" 5 "''a@b.org''"]
  by simp

section \<open>The tabular exporter\<close>

text \<open>
  The four text fields default to their sentinel, and the names of a record that has
  authors are joined by a comma and a space.
\<close>

lemma to_row_present_fields:
  "Title (to_row a) = (case TI a of None \<Rightarrow> ''No title'' | Some v \<Rightarrow> v)
   \<and> Abstract (to_row a) = (case AB a of None \<Rightarrow> ''No abstract'' | Some v \<Rightarrow> v)
   \<and> Publication_Date (to_row a) = (case DP a of None \<Rightarrow> ''No date'' | Some v \<Rightarrow> v)
   \<and> Journal (to_row a) = (case TA a of None \<Rightarrow> ''No journal'' | Some v \<Rightarrow> v)
   \<and> (\<forall>names. AU a = Some names \<longrightarrow> Authors (to_row a) = join '', '' names)"
  by (simp add: to_row_def get_str_def get_AU_def)

text \<open>
  C2 (the code at the failing input). For a record without the key \<open>AU\<close> the default
  \<open>'No authors'\<close> is itself handed to \<open>', '.join\<close>, which joins its characters: the
  Authors cell is \<open>N, o,  , a, u, t, h, o, r, s\<close> and not the sentinel \<open>No authors\<close>.
\<close>

theorem save_to_excel_missing_authors:
  "save_to_excel [\<lparr>TI = Some ''T'', AU = None, AB = Some ''A'', DP = Some ''2020'', TA = Some ''J''\<rparr>]
     = [\<lparr>Title = ''T'', Authors = ''N, o,  , a, u, t, h, o, r, s'', Abstract = ''A'',
         Publication_Date = ''2020'', Journal = ''J''\<rparr>]
   \<and> Authors (to_row \<lparr>TI = Some ''T'', AU = None, AB = Some ''A'', DP = Some ''2020'', TA = Some ''J''\<rparr>)
       \<noteq> ''No authors''"
  by (simp add: save_to_excel_def to_row_def get_str_def get_AU_def)

section \<open>The allow-list of relationships\<close>

lemma split_nonempty: "split sep s \<noteq> []"
  by (induction s) (auto split: list.splits)

lemma split_no_sep: "sep \<notin> set s \<Longrightarrow> split sep s = [s]"
  by (induction s) auto

lemma split_append_sep:
  "sep \<notin> set p \<Longrightarrow> split sep (p @ sep # rest) = p # split sep rest"
  by (induction p) auto

lemma split_join:
  "entries \<noteq> [] \<Longrightarrow> \<forall>e \<in> set entries. sep \<notin> set e \<Longrightarrow> split sep (join [sep] entries) = entries"
proof (induction "[sep]" entries rule: join.induct)
  case 1
  then show ?case by simp
next
  case (2 p)
  then show ?case by (simp add: split_no_sep)
next
  case (3 p q ps)
  then show ?case by (simp add: split_append_sep)
qed

lemma isspace_dash: "\<not> isspace CHR ''-''"
  by (simp add: isspace_def whitespace_def)

lemma set_dropWhile_keep:
  "x \<in> set xs \<Longrightarrow> \<not> P x \<Longrightarrow> x \<in> set (dropWhile P xs)"
  by (induction xs) auto

lemma dash_in_strip: "CHR ''-'' \<in> set rel \<Longrightarrow> CHR ''-'' \<in> set (strip rel)"
  by (simp add: strip_def set_dropWhile_keep isspace_dash)

lemma split_length: "length (split sep s) = Suc (length (filter (\<lambda>c. c = sep) s))"
  by (induction s) (auto split: list.splits simp: split_nonempty)

lemma split_with_sep: "sep \<in> set s \<Longrightarrow> 2 \<le> length (split sep s)"
proof -
  assume "sep \<in> set s"
  then have "filter (\<lambda>c. c = sep) s \<noteq> []"
    by (auto simp: filter_empty_conv)
  then obtain y ys where "filter (\<lambda>c. c = sep) s = y # ys"
    by (cases "filter (\<lambda>c. c = sep) s") auto
  then show ?thesis
    by (simp add: split_length)
qed

text \<open>
  C9 (as amended). For an input made of entries separated by commas, an entry without
  \<open>-\<close> contributes nothing, and an entry with \<open>-\<close> contributes, in order, the tuple obtained
  by stripping the whitespace at the two ends of the entry and splitting the result at
  every \<open>-\<close>; the parts themselves are not stripped. Every tuple has at least two
  components. The function is total: no input makes the parsing fail.
\<close>

theorem allowed_relationships_of_input_entries:
  assumes "entries \<noteq> []" and "\<forall>rel \<in> set entries. CHR '','' \<notin> set rel"
  shows "allowed_relationships_of_input (join '','' entries)
           = map (\<lambda>rel. split CHR ''-'' (strip rel)) (filter (\<lambda>rel. CHR ''-'' \<in> set rel) entries)
         \<and> (\<forall>t \<in> set (allowed_relationships_of_input (join '','' entries)). 2 \<le> length t)"
proof -
  have sp: "split CHR '','' (join '','' entries) = entries"
    using assms by (rule split_join)
  have eq: "allowed_relationships_of_input (join '','' entries)
           = map (\<lambda>rel. split CHR ''-'' (strip rel)) (filter (\<lambda>rel. CHR ''-'' \<in> set rel) entries)"
    unfolding allowed_relationships_of_input_def sp
    by (induction entries) auto
  have "\<forall>t \<in> set (allowed_relationships_of_input (join '','' entries)). 2 \<le> length t"
    unfolding eq by (auto intro!: split_with_sep dash_in_strip)
  with eq show ?thesis by blast
qed

theorem allowed_relationships_of_input_entries_witness:
  "allowed_relationships_of_input ''CHEMICAL-DISEASE,foo, GENE-DISEASE ,''
     = [[''CHEMICAL'', ''DISEASE''], [''GENE'', ''DISEASE'']]"
  using allowed_relationships_of_input_entries [of "[''CHEMICAL-DISEASE'', ''foo'', '' GENE-DISEASE '', '''']"]
  by (simp add: strip_def isspace_def whitespace_def)

text \<open>
  C9 as stated fails for an entry with whitespace around the separator: the parts keep it.
\<close>

theorem allowed_relationships_parts_counterexample:
  "allowed_relationships_of_input ''CHEMICAL - DISEASE'' = [[''CHEMICAL '', '' DISEASE'']]
   \<and> allowed_relationships_of_input ''CHEMICAL - DISEASE''
       \<noteq> [map strip (split CHR ''-'' ''CHEMICAL - DISEASE'')]"
  by (simp add: allowed_relationships_of_input_def strip_def isspace_def whitespace_def)

section \<open>The relationship builder\<close>

lemma length_combinations2: "length (combinations2 xs) = length xs choose 2"
proof (induction xs)
  case Nil
  then show ?case by simp
next
  case (Cons x xs)
  have "Suc (length xs) choose 2 = length xs + (length xs choose 2)"
    by (simp add: numeral_2_eq_2)
  with Cons show ?case by simp
qed

lemma combinations2_positions:
  "combinations2 xs
     = concat (map (\<lambda>i. map (\<lambda>j. (xs ! i, xs ! j)) [Suc i ..< length xs]) [0 ..< length xs])"
proof (induction xs)
  case Nil
  then show ?case by simp
next
  case (Cons x xs)
  have row: "map (Pair x) xs = map (\<lambda>j. ((x # xs) ! 0, (x # xs) ! j)) [Suc 0 ..< length (x # xs)]"
  proof -
    have "map (Pair x) xs = map (Pair x) (map (\<lambda>j. xs ! j) [0 ..< length xs])"
      by (simp add: map_nth)
    also have "\<dots> = map (\<lambda>j. (x, xs ! j)) [0 ..< length xs]"
      by (simp add: comp_def)
    also have "\<dots> = map (\<lambda>j. ((x # xs) ! 0, (x # xs) ! j)) [Suc 0 ..< length (x # xs)]"
      by (simp add: map_Suc_upt [symmetric] comp_def del: upt_Suc)
    finally show ?thesis .
  qed
  have rest: "concat (map (\<lambda>i. map (\<lambda>j. (xs ! i, xs ! j)) [Suc i ..< length xs]) [0 ..< length xs])
      = concat (map (\<lambda>i. map (\<lambda>j. ((x # xs) ! i, (x # xs) ! j)) [Suc i ..< length (x # xs)])
          [Suc 0 ..< length (x # xs)])"
    by (simp add: map_Suc_upt [symmetric] comp_def del: upt_Suc)
  have "[0 ..< length (x # xs)] = 0 # [Suc 0 ..< length (x # xs)]"
    by (simp add: upt_rec)
  then show ?case
    using Cons row rest by simp
qed

lemma append_edges_fold:
  "foldl (\<lambda>rows (entity1, entity2).
              if allowed_pair allowed entity1 entity2
              then rows @ [make_edge entity1 entity2] else rows) rows pairs
   = rows @ map (\<lambda>(entity1, entity2). make_edge entity1 entity2)
         (filter (\<lambda>(entity1, entity2). allowed_pair allowed entity1 entity2) pairs)"
  by (induction pairs arbitrary: rows) auto

lemma append_edges_eq:
  "append_edges allowed rows entities
     = rows @ map (\<lambda>(entity1, entity2). make_edge entity1 entity2)
         (filter (\<lambda>(entity1, entity2). allowed_pair allowed entity1 entity2) (combinations2 entities))"
  by (simp add: append_edges_def append_edges_fold)


lemma in_pairs:
  "p \<in> set (concat (map (\<lambda>i. map (\<lambda>j. (xs ! i, xs ! j)) [Suc i ..< length xs]) [0 ..< length xs]))
    \<longleftrightarrow> (\<exists>i j. i < j \<and> j < length xs \<and> p = (xs ! i, xs ! j))"
proof
  assume "p \<in> set (concat (map (\<lambda>i. map (\<lambda>j. (xs ! i, xs ! j)) [Suc i ..< length xs]) [0 ..< length xs]))"
  then have "\<exists>i j. Suc i \<le> j \<and> j < length xs \<and> p = (xs ! i, xs ! j)"
    by (auto, blast)
  then show "\<exists>i j. i < j \<and> j < length xs \<and> p = (xs ! i, xs ! j)"
    by (simp add: Suc_le_eq)
next
  assume "\<exists>i j. i < j \<and> j < length xs \<and> p = (xs ! i, xs ! j)"
  then obtain i j where ij: "i < j" "j < length xs" "p = (xs ! i, xs ! j)"
    by blast
  have "p \<in> set (map (\<lambda>j. (xs ! i, xs ! j)) [Suc i ..< length xs])"
    using ij by simp
  moreover have "i \<in> set [0 ..< length xs]"
    using ij by simp
  ultimately show "p \<in> set (concat (map (\<lambda>i. map (\<lambda>j. (xs ! i, xs ! j)) [Suc i ..< length xs]) [0 ..< length xs]))"
    by (simp del: set_upt) blast
qed

lemma in_combinations2:
  "p \<in> set (combinations2 xs) \<longleftrightarrow> (\<exists>i j. i < j \<and> j < length xs \<and> p = (xs ! i, xs ! j))"
  by (simp only: combinations2_positions in_pairs)

lemma process_row_pair:
  "process_row nlp entity_types allowed (rows, d) (abstract, title)
     = (rows @ append_edges allowed [] (get_bc5cdr_entities nlp abstract entity_types),
        record_entities title d (get_bc5cdr_entities nlp abstract entity_types))"
  by (simp add: process_row_def Let_def append_edges_eq)

lemma process_rows_fold:
  "foldl (process_row nlp entity_types allowed) (rows, d) table
     = (rows @ concat (map (\<lambda>(abstract, title).
                  append_edges allowed [] (get_bc5cdr_entities nlp abstract entity_types)) table),
        foldl (\<lambda>d (abstract, title).
                  record_entities title d (get_bc5cdr_entities nlp abstract entity_types)) d table)"
proof (induction table arbitrary: rows d)
  case Nil
  then show ?case by simp
next
  case (Cons row table)
  obtain abstract title where row: "row = (abstract, title)"
    by (cases row)
  show ?case
    unfolding row
    by (simp add: Cons.IH process_row_pair)
qed

lemma process_rows:
  "fst (process_abstracts_from_excel nlp df entity_types allowed)
     = concat (map (\<lambda>(abstract, title).
                  append_edges allowed [] (get_bc5cdr_entities nlp abstract entity_types)) (dropna df))"
  by (simp add: process_abstracts_from_excel_def process_rows_fold)

lemma process_entities:
  "snd (process_abstracts_from_excel nlp df entity_types allowed)
     = foldl (\<lambda>d (abstract, title).
                  record_entities title d (get_bc5cdr_entities nlp abstract entity_types)) [] (dropna df)"
  by (simp add: process_abstracts_from_excel_def process_rows_fold)

text \<open>
  C3. A mention list of length \<open>n\<close> has \<open>n choose 2\<close> candidate pairs, the pairs of
  positions \<open>i < j\<close> in lexicographic order. The second inner loop appends, in that
  order, one edge for each candidate pair whose two types, in either order, form a tuple
  of the allow-list, and nothing for the other pairs; this is what one pass of the outer
  loop does to the rows. So the rows returned by \<open>process_abstracts_from_excel\<close> are, for
  the processed abstracts in order, the edges of the qualifying candidate pairs of each
  abstract's mention list. For the mentions \<open>[(a,CHEMICAL), (b,DISEASE), (c,CHEMICAL)]\<close>
  and the allow-list \<open>{(CHEMICAL,DISEASE)}\<close> exactly the edges a-b and b-c are produced,
  by the inner loop and by the run on a table whose one abstract has these mentions.
\<close>

theorem relationship_builder_pairs:
  "length (combinations2 entities) = length entities choose 2
   \<and> combinations2 entities
       = concat (map (\<lambda>i. map (\<lambda>j. (entities ! i, entities ! j)) [Suc i ..< length entities])
           [0 ..< length entities])
   \<and> append_edges allowed rows entities
       = rows @ map (\<lambda>(entity1, entity2). make_edge entity1 entity2)
           (filter (\<lambda>(entity1, entity2).
                      [snd entity1, snd entity2] \<in> set allowed
                      \<or> [snd entity2, snd entity1] \<in> set allowed)
              (combinations2 entities))
   \<and> fst (process_row nlp entity_types allowed (rows, d) (abstract, title))
       = append_edges allowed rows (get_bc5cdr_entities nlp abstract entity_types)
   \<and> fst (process_abstracts_from_excel nlp df entity_types allowed)
       = concat (map (\<lambda>(abstract, title).
                   map (\<lambda>(entity1, entity2). make_edge entity1 entity2)
                     (filter (\<lambda>(entity1, entity2).
                                [snd entity1, snd entity2] \<in> set allowed
                                \<or> [snd entity2, snd entity1] \<in> set allowed)
                        (combinations2 (get_bc5cdr_entities nlp abstract entity_types))))
           (dropna df))
   \<and> append_edges [[''CHEMICAL'', ''DISEASE'']] []
         [(a, ''CHEMICAL''), (b, ''DISEASE''), (c, ''CHEMICAL'')]
       = [\<lparr>source = a, target = b, edge = ''CHEMICAL_to_DISEASE''\<rparr>,
          \<lparr>source = b, target = c, edge = ''DISEASE_to_CHEMICAL''\<rparr>]
   \<and> fst (process_abstracts_from_excel
           (\<lambda>sent. [(a, ''CHEMICAL''), (b, ''DISEASE''), (c, ''CHEMICAL'')])
           [(Some abstract, Some title)] [''CHEMICAL'', ''DISEASE''] [[''CHEMICAL'', ''DISEASE'']])
       = [\<lparr>source = lower a, target = lower b, edge = ''CHEMICAL_to_DISEASE''\<rparr>,
          \<lparr>source = lower b, target = lower c, edge = ''DISEASE_to_CHEMICAL''\<rparr>]"
proof -
  have run: "fst (process_abstracts_from_excel nlp df entity_types allowed)
       = concat (map (\<lambda>(abstract, title).
                   map (\<lambda>(entity1, entity2). make_edge entity1 entity2)
                     (filter (\<lambda>(entity1, entity2).
                                [snd entity1, snd entity2] \<in> set allowed
                                \<or> [snd entity2, snd entity1] \<in> set allowed)
                        (combinations2 (get_bc5cdr_entities nlp abstract entity_types))))
           (dropna df))"
    unfolding process_rows append_edges_eq allowed_pair_def by simp
  have exrun: "fst (process_abstracts_from_excel
           (\<lambda>sent. [(a, ''CHEMICAL''), (b, ''DISEASE''), (c, ''CHEMICAL'')])
           [(Some abstract, Some title)] [''CHEMICAL'', ''DISEASE''] [[''CHEMICAL'', ''DISEASE'']])
       = [\<lparr>source = lower a, target = lower b, edge = ''CHEMICAL_to_DISEASE''\<rparr>,
          \<lparr>source = lower b, target = lower c, edge = ''DISEASE_to_CHEMICAL''\<rparr>]"
    by (simp add: process_rows get_bc5cdr_entities_def append_edges_def allowed_pair_def
        make_edge_def)
  have ex: "append_edges [[''CHEMICAL'', ''DISEASE'']] []
         [(a, ''CHEMICAL''), (b, ''DISEASE''), (c, ''CHEMICAL'')]
       = [\<lparr>source = a, target = b, edge = ''CHEMICAL_to_DISEASE''\<rparr>,
          \<lparr>source = b, target = c, edge = ''DISEASE_to_CHEMICAL''\<rparr>]"
    by (simp add: append_edges_def allowed_pair_def make_edge_def)
  have app: "append_edges allowed rows entities
       = rows @ map (\<lambda>(entity1, entity2). make_edge entity1 entity2)
           (filter (\<lambda>(entity1, entity2).
                      [snd entity1, snd entity2] \<in> set allowed
                      \<or> [snd entity2, snd entity1] \<in> set allowed)
              (combinations2 entities))"
    by (simp add: append_edges_eq allowed_pair_def)
  have row: "fst (process_row nlp entity_types allowed (rows, d) (abstract, title))
       = append_edges allowed rows (get_bc5cdr_entities nlp abstract entity_types)"
    by (simp add: process_row_def Let_def)
  show ?thesis
    using length_combinations2 [of entities] combinations2_positions [of entities] app row run
      ex exrun
    by blast
qed

text \<open>
  C6. Every edge row of a run comes from two positions \<open>i < j\<close> of the mention list of one
  processed abstract: its source and target are the texts at \<open>i\<close> and at \<open>j\<close>, and its
  label is the type at \<open>i\<close>, then \<open>_to_\<close>, then the type at \<open>j\<close>, in this order of
  positions and not in a sorted order of the types.
\<close>

theorem edge_label_order:
  assumes "row \<in> set (fst (process_abstracts_from_excel nlp df entity_types allowed))"
  shows "\<exists>abstract title i j.
           (abstract, title) \<in> set (dropna df)
           \<and> i < j \<and> j < length (get_bc5cdr_entities nlp abstract entity_types)
           \<and> source row = fst (get_bc5cdr_entities nlp abstract entity_types ! i)
           \<and> target row = fst (get_bc5cdr_entities nlp abstract entity_types ! j)
           \<and> edge row = snd (get_bc5cdr_entities nlp abstract entity_types ! i) @ ''_to_''
                          @ snd (get_bc5cdr_entities nlp abstract entity_types ! j)"
proof -
  from assms obtain abstract title
    where at: "(abstract, title) \<in> set (dropna df)"
      and "row \<in> set (append_edges allowed [] (get_bc5cdr_entities nlp abstract entity_types))"
    unfolding process_rows by auto
  then obtain p where p: "p \<in> set (combinations2 (get_bc5cdr_entities nlp abstract entity_types))"
    and r: "row = make_edge (fst p) (snd p)"
    unfolding append_edges_eq by auto
  from p obtain i j where ij: "i < j" "j < length (get_bc5cdr_entities nlp abstract entity_types)"
    and pe: "p = (get_bc5cdr_entities nlp abstract entity_types ! i,
                  get_bc5cdr_entities nlp abstract entity_types ! j)"
    unfolding in_combinations2 by blast
  have "source row = fst (get_bc5cdr_entities nlp abstract entity_types ! i)
        \<and> target row = fst (get_bc5cdr_entities nlp abstract entity_types ! j)
        \<and> edge row = snd (get_bc5cdr_entities nlp abstract entity_types ! i) @ ''_to_''
                          @ snd (get_bc5cdr_entities nlp abstract entity_types ! j)"
    unfolding r pe by (simp add: make_edge_def)
  with at ij show ?thesis by blast
qed

section \<open>The entity extractor\<close>

lemma map_of_ensure_entity:
  "map_of (ensure_entity x ty d) k
     = (if k = x \<and> map_of d x = None then Some \<lparr>titles = {}, type = ty\<rparr> else map_of d k)"
proof -
  have absent: "x \<notin> fst ` set d \<longleftrightarrow> map_of d x = None"
    by (simp add: map_of_eq_None_iff)
  show ?thesis
    unfolding ensure_entity_def absent
    by (auto simp: map_add_def split: option.splits)
qed

lemma map_of_add_title:
  "map_of (add_title x t d) k
     = (if k = x then map_option (\<lambda>r. r\<lparr>titles := insert t (titles r)\<rparr>) (map_of d x)
        else map_of d k)"
  by (induction d) (auto simp: add_title_def)

lemma keys_add_title: "map fst (add_title x t d) = map fst d"
  by (induction d) (auto simp: add_title_def)

lemma keys_ensure_entity:
  "map fst (ensure_entity x ty d) = (if x \<in> set (map fst d) then map fst d else map fst d @ [x])"
  by (simp add: ensure_entity_def)

lemma record_entities_Cons:
  "record_entities t d ((x, ty) # es) = record_entities t (add_title x t (ensure_entity x ty d)) es"
  by (simp add: record_entities_def)

lemma record_entities_Nil: "record_entities t d [] = d"
  by (simp add: record_entities_def)

lemma map_of_record_entities:
  "map_of (record_entities t d es) k
     = (case map_of d k of
          Some r \<Rightarrow> Some (if k \<in> fst ` set es then r\<lparr>titles := insert t (titles r)\<rparr> else r)
        | None \<Rightarrow> (case map_of es k of None \<Rightarrow> None
                                    | Some ty \<Rightarrow> Some \<lparr>titles = {t}, type = ty\<rparr>))"
proof (induction es arbitrary: d)
  case Nil
  then show ?case by (simp add: record_entities_Nil split: option.splits)
next
  case (Cons e es)
  obtain x ty where e: "e = (x, ty)" by (cases e)
  show ?case
    unfolding e record_entities_Cons Cons.IH
    by (auto simp: map_of_add_title map_of_ensure_entity split: option.splits)
qed

lemma keys_record_entities:
  "set (map fst (record_entities t d es)) = set (map fst d) \<union> fst ` set es"
proof (induction es arbitrary: d)
  case Nil
  then show ?case by (simp add: record_entities_Nil)
next
  case (Cons e es)
  obtain x ty where e: "e = (x, ty)" by (cases e)
  show ?case
    unfolding e record_entities_Cons Cons.IH
    by (auto simp: keys_add_title keys_ensure_entity)
qed

lemma distinct_record_entities:
  "distinct (map fst d) \<Longrightarrow> distinct (map fst (record_entities t d es))"
proof (induction es arbitrary: d)
  case Nil
  then show ?case by (simp add: record_entities_Nil)
next
  case (Cons e es)
  obtain x ty where e: "e = (x, ty)" by (cases e)
  have "distinct (map fst (add_title x t (ensure_entity x ty d)))"
    using Cons.prems by (simp add: keys_add_title keys_ensure_entity)
  then show ?case
    unfolding e record_entities_Cons by (rule Cons.IH)
qed


lemma map_of_run:
  "map_of (foldl (\<lambda>d (a, t). record_entities t d (E a)) d rows) k
     = (case map_of d k of
          Some r \<Rightarrow>
            Some (r\<lparr>titles := titles r \<union> {t. \<exists>a. (a, t) \<in> set rows \<and> k \<in> fst ` set (E a)}\<rparr>)
        | None \<Rightarrow>
            (case map_of (concat (map (\<lambda>(a, t). E a) rows)) k of
               None \<Rightarrow> None
             | Some ty \<Rightarrow>
                 Some \<lparr>titles = {t. \<exists>a. (a, t) \<in> set rows \<and> k \<in> fst ` set (E a)}, type = ty\<rparr>))"
proof (induction rows arbitrary: d)
  case Nil
  then show ?case by (simp split: option.splits)
next
  case (Cons row rows)
  obtain a t where row: "row = (a, t)" by (cases row)
  let ?T = "{t. \<exists>a. (a, t) \<in> set rows \<and> k \<in> fst ` set (E a)}"
  let ?T' = "{t'. \<exists>a'. (a', t') \<in> set ((a, t) # rows) \<and> k \<in> fst ` set (E a')}"
  have T': "?T' = (if k \<in> fst ` set (E a) then insert t ?T else ?T)"
    by auto
  have mention: "k \<in> fst ` set (E a) \<longleftrightarrow> map_of (E a) k \<noteq> None"
    by (simp add: map_of_eq_None_iff)
  have first: "map_of (concat (map (\<lambda>(a, t). E a) ((a, t) # rows))) k
      = (case map_of (E a) k of None \<Rightarrow> map_of (concat (map (\<lambda>(a, t). E a) rows)) k
                               | Some ty \<Rightarrow> Some ty)"
    by (simp add: map_add_def)
  have step: "foldl (\<lambda>d (a, t). record_entities t d (E a)) d ((a, t) # rows)
      = foldl (\<lambda>d (a, t). record_entities t d (E a)) (record_entities t d (E a)) rows"
    by simp
  show ?case
  proof (cases "map_of d k")
    case None
    show ?thesis
    proof (cases "map_of (E a) k")
      case N2: None
      then have "k \<notin> fst ` set (E a)" using mention by simp
      then have eqT: "?T' = ?T" using T' by simp
      show ?thesis
        unfolding row step Cons.IH first eqT
        by (simp add: map_of_record_entities None N2)
    next
      case (Some ty)
      then have "k \<in> fst ` set (E a)" using mention by simp
      then have eqT: "?T' = insert t ?T" using T' by simp
      show ?thesis
        unfolding row step Cons.IH first eqT
        by (simp add: map_of_record_entities None Some)
    qed
  next
    case (Some r)
    show ?thesis
    proof (cases "k \<in> fst ` set (E a)")
      case True
      then have eqT: "?T' = insert t ?T" using T' by simp
      show ?thesis
        unfolding row step Cons.IH eqT
        by (simp add: map_of_record_entities Some True)
    next
      case False
      then have eqT: "?T' = ?T" using T' by simp
      show ?thesis
        unfolding row step Cons.IH eqT
        by (simp add: map_of_record_entities Some False)
    qed
  qed
qed

lemma example_entities:
  "get_bc5cdr_entities example_tagger ''first abstract'' [''CHEMICAL'', ''DISEASE'']
     = [(''aspirin'', ''CHEMICAL''), (''headache'', ''DISEASE''), (''ibuprofen'', ''CHEMICAL'')]"
  "get_bc5cdr_entities example_tagger ''second abstract'' [''CHEMICAL'', ''DISEASE'']
     = [(''aspirin'', ''DISEASE'')]"
  "get_bc5cdr_entities example_tagger ''third abstract'' [''CHEMICAL'', ''DISEASE''] = []"
  by (simp_all add: get_bc5cdr_entities_def example_tagger_def lower_def lower_char_def
      ascii_uppercase_def ascii_lowercase_def)

lemma example_dropna:
  "dropna example_table
     = [(''first abstract'', ''Title 1''), (''second abstract'', ''Title 2''),
        (''third abstract'', ''Title 3'')]"
  by (simp add: example_table_def)

lemma example_run:
  "process_abstracts_from_excel example_tagger example_table [''CHEMICAL'', ''DISEASE'']
       [[''CHEMICAL'', ''DISEASE'']]
     = ([\<lparr>source = ''aspirin'', target = ''headache'', edge = ''CHEMICAL_to_DISEASE''\<rparr>,
         \<lparr>source = ''headache'', target = ''ibuprofen'', edge = ''DISEASE_to_CHEMICAL''\<rparr>],
        [(''aspirin'', \<lparr>titles = {''Title 2'', ''Title 1''}, type = ''CHEMICAL''\<rparr>),
         (''headache'', \<lparr>titles = {''Title 1''}, type = ''DISEASE''\<rparr>),
         (''ibuprofen'', \<lparr>titles = {''Title 1''}, type = ''CHEMICAL''\<rparr>)])"
  by (simp add: process_abstracts_from_excel_def example_dropna process_row_def example_entities
      append_edges_def allowed_pair_def make_edge_def record_entities_def ensure_entity_def
      add_title_def)


lemma keys_run:
  "fst ` set (foldl (\<lambda>d (a, t). record_entities t d (E a)) d rows)
     = fst ` set d \<union> (\<Union>(a, t) \<in> set rows. fst ` set (E a))"
proof (induction rows arbitrary: d)
  case Nil
  then show ?case by simp
next
  case (Cons row rows)
  obtain a t where row: "row = (a, t)" by (cases row)
  have "fst ` set (record_entities t d (E a)) = fst ` set d \<union> fst ` set (E a)"
    using keys_record_entities [of t d "E a"] by simp
  then show ?case
    unfolding row by (simp add: Cons.IH Un_assoc)
qed

lemma distinct_run:
  "distinct (map fst d) \<Longrightarrow> distinct (map fst (foldl (\<lambda>d (a, t). record_entities t d (E a)) d rows))"
proof (induction rows arbitrary: d)
  case Nil
  then show ?case by simp
next
  case (Cons row rows)
  obtain a t where row: "row = (a, t)" by (cases row)
  have "distinct (map fst (record_entities t d (E a)))"
    using Cons.prems by (rule distinct_record_entities)
  then show ?case
    unfolding row using Cons.IH by simp
qed

lemma map_of_first:
  "k \<notin> fst ` set before \<Longrightarrow> map_of (before @ (k, v) # after) k = Some v"
  by (simp add: map_add_def map_of_eq_None_iff [symmetric])

lemma titles_as_list:
  "{t. \<exists>a. (a, t) \<in> set rows \<and> P a} = set [t. (a, t) \<leftarrow> rows, P a]"
  by (induction rows) auto

text \<open>
  C1 (as amended). For an entity text met in the run, the stored type is the type of its
  first mention, in the order in which the abstracts and their mentions are processed
  (the type is written when the key is created and never again), and the stored title set
  is the set of the titles of all abstracts that mention the text. The keys of the mapping
  are distinct.
\<close>

theorem entity_type_first_write:
  assumes "concat (map (\<lambda>(abstract, title). get_bc5cdr_entities nlp abstract entity_types) (dropna df))
             = before @ (entity_text, entity_type) # after"
    and "entity_text \<notin> fst ` set before"
  shows "map_of (snd (process_abstracts_from_excel nlp df entity_types allowed)) entity_text
           = Some \<lparr>titles = set [title. (abstract, title) \<leftarrow> dropna df,
                                entity_text \<in> fst ` set (get_bc5cdr_entities nlp abstract entity_types)],
                    type = entity_type\<rparr>
         \<and> distinct (map fst (snd (process_abstracts_from_excel nlp df entity_types allowed)))"
proof -
  have first: "map_of (concat (map (\<lambda>(abstract, title). get_bc5cdr_entities nlp abstract entity_types)
                 (dropna df))) entity_text = Some entity_type"
    unfolding assms(1) using assms(2) by (rule map_of_first)
  have "map_of (snd (process_abstracts_from_excel nlp df entity_types allowed)) entity_text
           = Some \<lparr>titles = set [title. (abstract, title) \<leftarrow> dropna df,
                                entity_text \<in> fst ` set (get_bc5cdr_entities nlp abstract entity_types)],
                    type = entity_type\<rparr>"
    unfolding process_entities map_of_run first titles_as_list by simp
  moreover have "distinct (map fst (snd (process_abstracts_from_excel nlp df entity_types allowed)))"
    unfolding process_entities by (rule distinct_run) simp
  ultimately show ?thesis by blast
qed

theorem entity_type_first_write_witness:
  "map_of (snd (process_abstracts_from_excel example_tagger example_table [''CHEMICAL'', ''DISEASE'']
             [[''CHEMICAL'', ''DISEASE'']])) ''aspirin''
     = Some \<lparr>titles = {''Title 1'', ''Title 2''}, type = ''CHEMICAL''\<rparr>"
proof -
  have h1: "concat (map (\<lambda>(abstract, title).
                get_bc5cdr_entities example_tagger abstract [''CHEMICAL'', ''DISEASE''])
              (dropna example_table))
            = [] @ (''aspirin'', ''CHEMICAL'')
                # [(''headache'', ''DISEASE''), (''ibuprofen'', ''CHEMICAL''), (''aspirin'', ''DISEASE'')]"
    by (simp add: example_dropna example_entities)
  have h2: "''aspirin'' \<notin> fst ` set ([] :: (string \<times> string) list)"
    by simp
  show ?thesis
    using entity_type_first_write [OF h1 h2, of "[[''CHEMICAL'', ''DISEASE'']]"]
    by (simp add: example_dropna example_entities)
qed

text \<open>
  C1 as stated fails: "aspirin" is tagged CHEMICAL in the first abstract and DISEASE in the
  second, its most recent mention, and the stored type is not DISEASE.
\<close>

theorem entity_type_last_write_counterexample:
  "last (filter (\<lambda>mention. fst mention = ''aspirin'')
           (concat (map (\<lambda>(abstract, title).
                      get_bc5cdr_entities example_tagger abstract [''CHEMICAL'', ''DISEASE''])
              (dropna example_table))))
     = (''aspirin'', ''DISEASE'')
   \<and> map_option type
         (map_of (snd (process_abstracts_from_excel example_tagger example_table
                    [''CHEMICAL'', ''DISEASE''] [[''CHEMICAL'', ''DISEASE'']])) ''aspirin'')
       \<noteq> Some ''DISEASE''"
  by (simp add: example_run example_dropna example_entities)

text \<open>
  The label of C6 at work in the example run: the edge from "headache" to "ibuprofen" is
  labelled \<open>DISEASE_to_CHEMICAL\<close>, the two types in the order of the two positions.
\<close>

theorem edge_label_order_witness:
  "\<lparr>source = ''headache'', target = ''ibuprofen'', edge = ''DISEASE_to_CHEMICAL''\<rparr>
     \<in> set (fst (process_abstracts_from_excel example_tagger example_table
                  [''CHEMICAL'', ''DISEASE''] [[''CHEMICAL'', ''DISEASE'']]))
   \<and> (\<exists>abstract title i j.
         (abstract, title) \<in> set (dropna example_table)
         \<and> i < j \<and> j < length (get_bc5cdr_entities example_tagger abstract [''CHEMICAL'', ''DISEASE''])
         \<and> ''headache'' = fst (get_bc5cdr_entities example_tagger abstract [''CHEMICAL'', ''DISEASE''] ! i)
         \<and> ''ibuprofen'' = fst (get_bc5cdr_entities example_tagger abstract [''CHEMICAL'', ''DISEASE''] ! j)
         \<and> ''DISEASE_to_CHEMICAL''
             = snd (get_bc5cdr_entities example_tagger abstract [''CHEMICAL'', ''DISEASE''] ! i) @ ''_to_''
               @ snd (get_bc5cdr_entities example_tagger abstract [''CHEMICAL'', ''DISEASE''] ! j))"
proof -
  have h: "\<lparr>source = ''headache'', target = ''ibuprofen'', edge = ''DISEASE_to_CHEMICAL''\<rparr>
     \<in> set (fst (process_abstracts_from_excel example_tagger example_table
                  [''CHEMICAL'', ''DISEASE''] [[''CHEMICAL'', ''DISEASE'']]))"
    by (simp add: example_run)
  show ?thesis
    using h edge_label_order [OF h] by simp
qed

lemma process_keys:
  "fst ` set (snd (process_abstracts_from_excel nlp df entity_types allowed))
     = (\<Union>(abstract, title) \<in> set (dropna df). fst ` set (get_bc5cdr_entities nlp abstract entity_types))"
  unfolding process_entities keys_run by simp






section \<open>The graph assembler\<close>

lemma nodes_add_entity_nodes:
  "add_entity_nodes d net
     = net\<lparr>nodes := nodes net
          @ map (\<lambda>(entity, details).
                   \<lparr>n_id = entity, n_titles = titles details,
                    color = dict_get entity_colors (upper (type details)) ''#999999''\<rparr>) d\<rparr>"
  unfolding add_entity_nodes_def
  by (induction d arbitrary: net) (auto simp: add_node_def)

lemma add_edge_rows_filter:
  "add_edge_rows kg_df net
     = net\<lparr>edges := edges net
          @ map (\<lambda>row. \<lparr>e_source = source row, e_to = target row, e_title = edge row\<rparr>)
              (filter (\<lambda>row. source row \<in> set (get_nodes net) \<and> target row \<in> set (get_nodes net))
                 kg_df)\<rparr>"
  unfolding add_edge_rows_def
  by (induction kg_df arbitrary: net) (auto simp: add_edge_def get_nodes_def)

lemma get_nodes_entity_nodes:
  "get_nodes (add_entity_nodes d \<lparr>nodes = [], edges = []\<rparr>) = map fst d"
  by (simp add: nodes_add_entity_nodes get_nodes_def comp_def case_prod_beta)


lemma visualize_graph_interactive_eq:
  "visualize_graph_interactive kg_df d
     = \<lparr>nodes = map (\<lambda>(entity, details).
                       \<lparr>n_id = entity, n_titles = titles details,
                        color = dict_get entity_colors (upper (type details)) ''#999999''\<rparr>) d,
        edges = map (\<lambda>row. \<lparr>e_source = source row, e_to = target row, e_title = edge row\<rparr>)
                  (filter (\<lambda>row. source row \<in> fst ` set d \<and> target row \<in> fst ` set d) kg_df)\<rparr>"
proof -
  have keys: "set (get_nodes (add_entity_nodes d \<lparr>nodes = [], edges = []\<rparr>)) = fst ` set d"
    unfolding get_nodes_entity_nodes by simp
  show ?thesis
    unfolding visualize_graph_interactive_def add_edge_rows_filter keys
    by (simp add: nodes_add_entity_nodes)
qed

text \<open>
  C8. The assembled network has one node per key of the entity mapping, in order, with the
  colour of its type. A row of the edge list whose source or target is not the id of a node
  is skipped: the loop goes on to the next row with the network unchanged, and the edges of
  the network are those of the rows with both ends among the keys. With an empty edge list
  the network has its nodes and no edge.
\<close>

theorem graph_assembly:
  "nodes (visualize_graph_interactive kg_df entity_to_titles)
     = map (\<lambda>(entity, details).
              \<lparr>n_id = entity, n_titles = titles details,
               color = dict_get entity_colors (upper (type details)) ''#999999''\<rparr>) entity_to_titles
   \<and> get_nodes (visualize_graph_interactive kg_df entity_to_titles) = map fst entity_to_titles
   \<and> edges (visualize_graph_interactive kg_df entity_to_titles)
       = map (\<lambda>row. \<lparr>e_source = source row, e_to = target row, e_title = edge row\<rparr>)
           (filter (\<lambda>row. source row \<in> fst ` set entity_to_titles
                          \<and> target row \<in> fst ` set entity_to_titles) kg_df)
   \<and> (source row \<notin> set (get_nodes net) \<or> target row \<notin> set (get_nodes net)
        \<longrightarrow> add_edge_rows (row # kg_df) net = add_edge_rows kg_df net)
   \<and> edges (visualize_graph_interactive [] entity_to_titles) = []
   \<and> length (nodes (visualize_graph_interactive [] entity_to_titles)) = length entity_to_titles"
proof -
  have n: "nodes (visualize_graph_interactive kg_df entity_to_titles)
     = map (\<lambda>(entity, details).
              \<lparr>n_id = entity, n_titles = titles details,
               color = dict_get entity_colors (upper (type details)) ''#999999''\<rparr>) entity_to_titles"
    for kg_df
    by (simp add: visualize_graph_interactive_eq)
  have g: "get_nodes (visualize_graph_interactive kg_df entity_to_titles) = map fst entity_to_titles"
    unfolding get_nodes_def n by (simp add: comp_def case_prod_beta)
  have e: "edges (visualize_graph_interactive kg_df entity_to_titles)
       = map (\<lambda>row. \<lparr>e_source = source row, e_to = target row, e_title = edge row\<rparr>)
           (filter (\<lambda>row. source row \<in> fst ` set entity_to_titles
                          \<and> target row \<in> fst ` set entity_to_titles) kg_df)"
    for kg_df
    by (simp add: visualize_graph_interactive_eq)
  have skip: "source row \<notin> set (get_nodes net) \<or> target row \<notin> set (get_nodes net)
        \<longrightarrow> add_edge_rows (row # kg_df) net = add_edge_rows kg_df net"
    by (auto simp: add_edge_rows_def)
  have e0: "edges (visualize_graph_interactive [] entity_to_titles) = []"
    unfolding e by simp
  have n0: "length (nodes (visualize_graph_interactive [] entity_to_titles)) = length entity_to_titles"
    unfolding n by simp
  from n g e skip e0 n0 show ?thesis by blast
qed

theorem graph_assembly_witness:
  "visualize_graph_interactive
     [\<lparr>source = ''aspirin'', target = ''headache'', edge = ''CHEMICAL_to_DISEASE''\<rparr>,
      \<lparr>source = ''aspirin'', target = ''fever'', edge = ''CHEMICAL_to_DISEASE''\<rparr>]
     [(''aspirin'', \<lparr>titles = {''Title 1''}, type = ''Chemical''\<rparr>),
      (''headache'', \<lparr>titles = {''Title 1''}, type = ''DISEASE''\<rparr>)]
     = \<lparr>nodes = [\<lparr>n_id = ''aspirin'', n_titles = {''Title 1''}, color = ''green''\<rparr>,
                 \<lparr>n_id = ''headache'', n_titles = {''Title 1''}, color = ''red''\<rparr>],
        edges = [\<lparr>e_source = ''aspirin'', e_to = ''headache'', e_title = ''CHEMICAL_to_DISEASE''\<rparr>]\<rparr>
   \<and> add_edge_rows [\<lparr>source = ''aspirin'', target = ''fever'', edge = ''CHEMICAL_to_DISEASE''\<rparr>]
         \<lparr>nodes = [\<lparr>n_id = ''aspirin'', n_titles = {''Title 1''}, color = ''green''\<rparr>], edges = []\<rparr>
       = \<lparr>nodes = [\<lparr>n_id = ''aspirin'', n_titles = {''Title 1''}, color = ''green''\<rparr>], edges = []\<rparr>"
proof -
  let ?net = "\<lparr>nodes = [\<lparr>n_id = ''aspirin'', n_titles = {''Title 1''}, color = ''green''\<rparr>], edges = []\<rparr>"
  let ?row = "\<lparr>source = ''aspirin'', target = ''fever'', edge = ''CHEMICAL_to_DISEASE''\<rparr>"
  have h: "source ?row \<notin> set (get_nodes ?net) \<or> target ?row \<notin> set (get_nodes ?net)"
    by (simp add: get_nodes_def)
  have run: "visualize_graph_interactive
     [\<lparr>source = ''aspirin'', target = ''headache'', edge = ''CHEMICAL_to_DISEASE''\<rparr>,
      \<lparr>source = ''aspirin'', target = ''fever'', edge = ''CHEMICAL_to_DISEASE''\<rparr>]
     [(''aspirin'', \<lparr>titles = {''Title 1''}, type = ''Chemical''\<rparr>),
      (''headache'', \<lparr>titles = {''Title 1''}, type = ''DISEASE''\<rparr>)]
     = \<lparr>nodes = [\<lparr>n_id = ''aspirin'', n_titles = {''Title 1''}, color = ''green''\<rparr>,
                 \<lparr>n_id = ''headache'', n_titles = {''Title 1''}, color = ''red''\<rparr>],
        edges = [\<lparr>e_source = ''aspirin'', e_to = ''headache'', e_title = ''CHEMICAL_to_DISEASE''\<rparr>]\<rparr>"
    by (simp add: visualize_graph_interactive_def add_entity_nodes_def add_edge_rows_def add_node_def
        add_edge_def get_nodes_def dict_get_def entity_colors_def upper_def upper_char_def
        ascii_uppercase_def ascii_lowercase_def)
  have "add_edge_rows (?row # []) ?net = add_edge_rows [] ?net"
    using h graph_assembly [of "[]" _ ?row ?net] by blast
  then have "add_edge_rows [?row] ?net = ?net"
    by (simp add: add_edge_rows_def)
  with run show ?thesis by blast
qed


section \<open>From extraction to graph\<close>

lemma edge_row_endpoints:
  assumes "row \<in> set (fst (process_abstracts_from_excel nlp df entity_types allowed))"
  shows "\<exists>abstract title. (abstract, title) \<in> set (dropna df)
           \<and> source row \<in> fst ` set (get_bc5cdr_entities nlp abstract entity_types)
           \<and> target row \<in> fst ` set (get_bc5cdr_entities nlp abstract entity_types)"
proof -
  from assms obtain abstract title
    where at: "(abstract, title) \<in> set (dropna df)"
      and "row \<in> set (append_edges allowed [] (get_bc5cdr_entities nlp abstract entity_types))"
    unfolding process_rows by auto
  then obtain p where p: "p \<in> set (combinations2 (get_bc5cdr_entities nlp abstract entity_types))"
    and r: "row = make_edge (fst p) (snd p)"
    unfolding append_edges_eq by auto
  from p obtain i j where ij: "i < j" "j < length (get_bc5cdr_entities nlp abstract entity_types)"
    and pe: "p = (get_bc5cdr_entities nlp abstract entity_types ! i,
                  get_bc5cdr_entities nlp abstract entity_types ! j)"
    unfolding in_combinations2 by blast
  have "get_bc5cdr_entities nlp abstract entity_types ! i
          \<in> set (get_bc5cdr_entities nlp abstract entity_types)"
       "get_bc5cdr_entities nlp abstract entity_types ! j
          \<in> set (get_bc5cdr_entities nlp abstract entity_types)"
    using ij by simp_all
  then have "source row \<in> fst ` set (get_bc5cdr_entities nlp abstract entity_types)
           \<and> target row \<in> fst ` set (get_bc5cdr_entities nlp abstract entity_types)"
    unfolding r pe by (simp add: make_edge_def)
  with at show ?thesis by blast
qed

text \<open>
  C10. Whatever the table, the allowed types and the allow-list, the source and the target
  of every edge row returned by \<open>process_abstracts_from_excel\<close> are keys of the entity
  mapping returned with it; so the check of the graph assembler drops none of these rows:
  it adds one edge per row, in order.
\<close>

theorem edges_have_nodes:
  "(\<forall>row \<in> set (fst (process_abstracts_from_excel nlp df entity_types allowed)).
      source row \<in> fst ` set (snd (process_abstracts_from_excel nlp df entity_types allowed))
      \<and> target row \<in> fst ` set (snd (process_abstracts_from_excel nlp df entity_types allowed)))
   \<and> edges (visualize_graph_interactive
               (fst (process_abstracts_from_excel nlp df entity_types allowed))
               (snd (process_abstracts_from_excel nlp df entity_types allowed)))
       = map (\<lambda>row. \<lparr>e_source = source row, e_to = target row, e_title = edge row\<rparr>)
           (fst (process_abstracts_from_excel nlp df entity_types allowed))"
proof -
  let ?P = "process_abstracts_from_excel nlp df entity_types allowed"
  have keys: "\<forall>row \<in> set (fst ?P). source row \<in> fst ` set (snd ?P) \<and> target row \<in> fst ` set (snd ?P)"
  proof
    fix row
    assume "row \<in> set (fst ?P)"
    then obtain abstract title where "(abstract, title) \<in> set (dropna df)"
      "source row \<in> fst ` set (get_bc5cdr_entities nlp abstract entity_types)"
      "target row \<in> fst ` set (get_bc5cdr_entities nlp abstract entity_types)"
      using edge_row_endpoints by blast
    then show "source row \<in> fst ` set (snd ?P) \<and> target row \<in> fst ` set (snd ?P)"
      unfolding process_keys by blast
  qed
  then have all: "filter (\<lambda>row. source row \<in> fst ` set (snd ?P) \<and> target row \<in> fst ` set (snd ?P)) (fst ?P)
      = fst ?P"
    by (simp add: filter_id_conv)
  have "edges (visualize_graph_interactive (fst ?P) (snd ?P))
      = map (\<lambda>row. \<lparr>e_source = source row, e_to = target row, e_title = edge row\<rparr>) (fst ?P)"
    by (simp add: visualize_graph_interactive_eq all)
  with keys show ?thesis by blast
qed

theorem edges_have_nodes_witness:
  "fst ` set (snd (process_abstracts_from_excel example_tagger example_table
                     [''CHEMICAL'', ''DISEASE''] [[''CHEMICAL'', ''DISEASE'']]))
     = {''aspirin'', ''headache'', ''ibuprofen''}
   \<and> edges (visualize_graph_interactive
               (fst (process_abstracts_from_excel example_tagger example_table
                       [''CHEMICAL'', ''DISEASE''] [[''CHEMICAL'', ''DISEASE'']]))
               (snd (process_abstracts_from_excel example_tagger example_table
                       [''CHEMICAL'', ''DISEASE''] [[''CHEMICAL'', ''DISEASE'']])))
       = [\<lparr>e_source = ''aspirin'', e_to = ''headache'', e_title = ''CHEMICAL_to_DISEASE''\<rparr>,
          \<lparr>e_source = ''headache'', e_to = ''ibuprofen'', e_title = ''DISEASE_to_CHEMICAL''\<rparr>]"
  using edges_have_nodes [of example_tagger example_table "[''CHEMICAL'', ''DISEASE'']"
      "[[''CHEMICAL'', ''DISEASE'']]"]
  by (simp add: example_run)

end
